theory Spec2Isabelle
  imports Main "HOL-Library.Word"
begin

section \<open>Data model of package wrap\<close>

text \<open>
  A Go byte slice is either \<open>nil\<close> or a (possibly empty) sequence of bytes; \<open>None\<close> is the
  nil slice. \<open>len\<close> is Go's built-in, which is 0 on nil.
\<close>

type_synonym bytes = "8 word list option"

definition len :: "bytes \<Rightarrow> nat" where
  "len b = (case b of None \<Rightarrow> 0 | Some xs \<Rightarrow> length xs)"

text \<open>
  \<open>lmdb.DBI\<close>: the type declaration is in the engine binding; the wrapper's own comment
  says the handle is just a uint.
\<close>

type_synonym DBI = "32 word"

text \<open>
  The four sentinel errors of the wrapper, the binding's \<open>OpError\<close> (operation name and
  errno) and the operating system's path error returned by \<open>os.MkdirAll\<close>.
\<close>

datatype error =
    ErrDuplicateDbName
  | ErrDbNameNotFound
  | ErrDBClosed
  | ErrEmptyKey
  | OpError string int
  | PathError string

text \<open>
  A call returns, panics (send on or close of a closed channel) or blocks for ever
  (a channel operation that no other goroutine will ever complete).
\<close>

datatype 'a outcome = Return 'a | Panics | Blocks

text \<open>
  Calls that leave the wrapper: the directory creation and the methods of the environment
  handle. The trace of a world lists them in the order they were made.
\<close>

datatype call =
    Call_MkdirAll string nat
  | Call_NewEnv
  | Call_SetMaxDBs int
  | Call_SetMapSize int
  | Call_Open string nat nat
  | Call_ReaderCheck
  | Call_Update_CreateDBI string
  | Call_View
  | Call_UpdateLocked
  | Call_EnvClose

text \<open>
  \<open>lmdb.TxnOp\<close> is \<open>func(txn *Txn) error\<close>: a transaction operation reads and changes
  the transaction's view \<open>'t\<close> of the data and returns an error or nil.
\<close>

type_synonym 't TxnOp = "'t \<Rightarrow> error option \<times> 't"

text \<open>
  The storage engine is an external collaborator. Its answers are parameters of the model:
  what each configuration call returns, and what \<open>Get\<close>, \<open>Put\<close> and \<open>Del\<close> do inside a
  transaction.
\<close>

record 't engine =
  mkdir_all :: "string \<Rightarrow> error option"
  new_env :: "error option"
  set_max_dbs :: "int \<Rightarrow> error option"
  set_map_size :: "int \<Rightarrow> error option"
  env_open :: "string \<Rightarrow> error option"
  reader_check :: "int \<times> error option"
  create_dbi :: "string \<Rightarrow> DBI \<times> error option"
  txn_get :: "DBI \<Rightarrow> bytes \<Rightarrow> 't \<Rightarrow> bytes \<times> error option"
  txn_put :: "DBI \<Rightarrow> bytes \<Rightarrow> bytes \<Rightarrow> nat \<Rightarrow> 't TxnOp"
  txn_del :: "DBI \<Rightarrow> bytes \<Rightarrow> bytes \<Rightarrow> 't TxnOp"

text \<open>
  \<open>updateOp\<close>: the operation and the channel on which its result is sent. A result
  channel is identified by a number; \<open>make(chan error)\<close> takes the next free one.
\<close>

record 't updateOp =
  op :: "'t TxnOp"
  res :: nat

text \<open>
  Everything outside the \<open>DB\<close> struct: the calls made so far, the committed data of the
  environment, the value sent on each result channel (a channel carries one value, to the
  caller that made it), and the next free channel number.
\<close>

record 't world =
  trace :: "call list"
  store :: 't
  results :: "nat \<rightharpoonup> error option"
  next_chan :: nat

text \<open>
  The \<open>DB\<close> struct. \<open>uOps\<close> is the buffered channel: its buffer (oldest request first),
  its capacity and whether \<open>close\<close> was called on it. \<open>wg\<close> is the WaitGroup counter, which
  is the number of running update goroutines. \<open>closeOnce\<close> is true once the \<open>sync.Once\<close> has
  run. The \<open>env\<close> field is the one environment handle, whose calls are the trace.
\<close>

record 't DB =
  dbs :: "string \<rightharpoonup> DBI"
  uOps :: "'t updateOp list"
  uOps_cap :: nat
  uOps_closed :: bool
  wg :: nat
  closeOnce :: bool
  closed :: "32 word"

definition call :: "call \<Rightarrow> 't world \<Rightarrow> 't world" where
  "call c w = w\<lparr>trace := trace w @ [c]\<rparr>"

section \<open>The environment's transactions\<close>

text \<open>
  Modelled from the spec: \<open>Env.View\<close> of the engine binding, which is not among the
  sources. The operation runs as a read transaction on a snapshot of the committed data;
  what it returns is handed back and the committed data stay as they were. A closure
  that assigns to a captured variable returns that variable's value in \<open>'r\<close>.
\<close>

definition env_View :: "('t \<Rightarrow> 'r \<times> 't) \<Rightarrow> 't world \<Rightarrow> 'r \<times> 't world" where
  "env_View f w = (fst (f (store w)), call Call_View w)"

text \<open>
  Modelled from the spec: \<open>Env.UpdateLocked\<close> of the engine binding, which is not among
  the sources. The operation runs inside one write transaction: commit on success, abort
  on operation failure, with the operation's error passed through unchanged.
\<close>

definition env_UpdateLocked :: "'t TxnOp \<Rightarrow> 't world \<Rightarrow> error option \<times> 't world" where
  "env_UpdateLocked f w =
     (case f (store w) of
        (Some err, t) \<Rightarrow> (Some err, call Call_UpdateLocked w)
      | (None, t) \<Rightarrow> (None, (call Call_UpdateLocked w)\<lparr>store := t\<rparr>))"

section \<open>New\<close>

text \<open>\<open>const MapSize = 10 * 1 << 30\<close>; in Go \<open>*\<close> and \<open><<\<close> bind equally and to the left.\<close>

definition MapSize :: int where
  "MapSize = push_bit 30 (10 * 1)"

text \<open>The loop over \<open>dbNames\<close> with the map \<open>seen\<close>: true when it returns the duplicate error.\<close>

fun seen_loop :: "string list \<Rightarrow> (string \<rightharpoonup> unit) \<Rightarrow> bool" where
  "seen_loop [] seen = False"
| "seen_loop (n # ns) seen =
     (if seen n \<noteq> None then True else seen_loop ns (seen(n \<mapsto> ())))"

text \<open>
  The loop that opens each database handle. The closure stores what \<open>CreateDBI\<close> returned
  in \<open>newDB.dbs\<close> and returns its error; on an error the loop closes the environment and
  \<open>New\<close> returns.
\<close>

fun open_loop ::
  "'t engine \<Rightarrow> string list \<Rightarrow> 't DB \<Rightarrow> 't world \<Rightarrow> error option \<times> 't DB \<times> 't world" where
  "open_loop eng [] newDB w = (None, newDB, w)"
| "open_loop eng (name # names) newDB w =
     (let (dbi, err) = create_dbi eng name;
          newDB' = newDB\<lparr>dbs := (dbs newDB)(name \<mapsto> dbi)\<rparr>;
          w' = call (Call_Update_CreateDBI name) w
      in if err \<noteq> None then (err, newDB', call Call_EnvClose w')
         else open_loop eng names newDB' w')"

definition New ::
  "'t engine \<Rightarrow> string \<Rightarrow> string list \<Rightarrow> 't world
     \<Rightarrow> ('t DB option \<times> int \<times> error option) \<times> 't world" where
  "New eng dirPath dbNames w =
     (if seen_loop dbNames Map.empty then ((None, 0, Some ErrDuplicateDbName), w)
      else
        let w1 = call (Call_MkdirAll dirPath 493) w in
        if mkdir_all eng dirPath \<noteq> None then ((None, 0, mkdir_all eng dirPath), w1)
        else
          let newDB = \<lparr>dbs = Map.empty, uOps = [], uOps_cap = 1000, uOps_closed = False,
                       wg = 0, closeOnce = False, closed = 0\<rparr>;
              w2 = call Call_NewEnv w1 in
          if new_env eng \<noteq> None then ((None, 0, new_env eng), w2)
          else
            let w3 = call (Call_SetMaxDBs (int (length dbNames))) w2 in
            if set_max_dbs eng (int (length dbNames)) \<noteq> None
            then ((None, 0, set_max_dbs eng (int (length dbNames))), w3)
            else
              let w4 = call (Call_SetMapSize MapSize) w3 in
              if set_map_size eng MapSize \<noteq> None
              then ((None, 0, set_map_size eng MapSize), w4)
              else
                let w5 = call (Call_Open dirPath 0 420) w4 in
                if env_open eng dirPath \<noteq> None then ((None, 0, env_open eng dirPath), w5)
                else
                  let (staleReaders, err) = reader_check eng;
                      w6 = call Call_ReaderCheck w5 in
                  if err \<noteq> None then ((None, 0, err), call Call_EnvClose w6)
                  else
                    let (err', newDB', w7) = open_loop eng dbNames newDB w6 in
                    if err' \<noteq> None then ((None, staleReaders, err'), w7)
                    else ((Some (newDB'\<lparr>wg := wg newDB' + 1\<rparr>), staleReaders, None), w7))"

section \<open>The update goroutine\<close>

text \<open>
  One turn of \<open>for op := range newDB.uOps { op.res <- newDB.env.UpdateLocked(op.op) }\<close>:
  the write transaction runs and its result is sent on the request's channel.
\<close>

definition worker_exec :: "'t updateOp \<Rightarrow> 't world \<Rightarrow> 't world" where
  "worker_exec u w =
     (let (err, w') = env_UpdateLocked (op u) w
      in w'\<lparr>results := (results w')(res u \<mapsto> err)\<rparr>)"

fun worker_loop :: "'t updateOp list \<Rightarrow> 't world \<Rightarrow> 't world" where
  "worker_loop [] w = w"
| "worker_loop (u # q) w = worker_loop q (worker_exec u w)"

text \<open>
  The goroutine runs until it blocks or exits: it takes every buffered request in order;
  when the channel is closed and empty the \<open>range\<close> loop ends and the deferred
  \<open>wg.Done()\<close> runs. With \<open>wg = 0\<close> there is no goroutine.
\<close>

definition worker_run :: "'t DB \<times> 't world \<Rightarrow> 't DB \<times> 't world" where
  "worker_run s =
     (let db = fst s; w = snd s in
      if wg db = 0 then s
      else
        let w' = worker_loop (uOps db) w; db' = db\<lparr>uOps := []\<rparr> in
        if uOps_closed db then (db'\<lparr>wg := wg db - 1\<rparr>, w') else (db', w'))"

section \<open>The facade\<close>

definition validateArgs :: "'t DB \<Rightarrow> string \<Rightarrow> bytes \<Rightarrow> DBI \<times> error option" where
  "validateArgs db dbName key =
     (if dbName = [] then (0, Some ErrDbNameNotFound)
      else if key = None \<or> len key = 0 then (0, Some ErrEmptyKey)
      else case dbs db dbName of
             None \<Rightarrow> (0, Some ErrDbNameNotFound)
           | Some dbi \<Rightarrow> (dbi, None))"

text \<open>\<open>parseArgs\<close> of \<^verbatim>\<open>wrap/wrap.go\<close>, the same checks under the earlier name.\<close>

definition parseArgs :: "'t DB \<Rightarrow> string \<Rightarrow> bytes \<Rightarrow> DBI \<times> error option" where
  "parseArgs db dbName key =
     (if dbName = [] then (0, Some ErrDbNameNotFound)
      else if key = None \<or> len key = 0 then (0, Some ErrEmptyKey)
      else case dbs db dbName of
             None \<Rightarrow> (0, Some ErrDbNameNotFound)
           | Some dbi \<Rightarrow> (dbi, None))"

text \<open>
  \<open>Update\<close>: the closed flag is loaded; a fresh result channel is made; the request is
  sent on \<open>uOps\<close> (a send on a closed channel panics); the caller then waits on the result
  channel while the update goroutine runs. A full buffer only delays the send until the
  goroutine has taken a request, so the request is appended and the goroutine run; when
  no goroutine is there to answer, the caller blocks.
\<close>

definition Update :: "'t TxnOp \<Rightarrow> 't DB \<times> 't world \<Rightarrow> error option outcome \<times> ('t DB \<times> 't world)" where
  "Update f s =
     (let db = fst s; w = snd s in
      if closed db \<noteq> 0 then (Return (Some ErrDBClosed), s)
      else
        let r = next_chan w; w1 = w\<lparr>next_chan := r + 1\<rparr> in
        if uOps_closed db then (Panics, (db, w1))
        else
          let s2 = worker_run (db\<lparr>uOps := uOps db @ [\<lparr>op = f, res = r\<rparr>]\<rparr>, w1) in
          case results (snd s2) r of
            None \<Rightarrow> (Blocks, s2)
          | Some e \<Rightarrow> (Return e, s2))"

definition View :: "'t TxnOp \<Rightarrow> 't DB \<times> 't world \<Rightarrow> error option outcome \<times> ('t DB \<times> 't world)" where
  "View f s =
     (let db = fst s; w = snd s in
      if closed db \<noteq> 0 then (Return (Some ErrDBClosed), s)
      else let (err, w') = env_View f w in (Return err, (db, w')))"

definition Read ::
  "'t engine \<Rightarrow> string \<Rightarrow> bytes \<Rightarrow> 't DB \<times> 't world
     \<Rightarrow> (bytes \<times> error option) outcome \<times> ('t DB \<times> 't world)" where
  "Read eng dbName key s =
     (let db = fst s; w = snd s; (dbi, err) = validateArgs db dbName key in
      if err \<noteq> None then (Return (None, err), s)
      else
        let (r, w') = env_View (\<lambda>txn. (txn_get eng dbi key txn, txn)) w
        in (Return r, (db, w')))"

definition Write ::
  "'t engine \<Rightarrow> string \<Rightarrow> bytes \<Rightarrow> bytes \<Rightarrow> 't DB \<times> 't world
     \<Rightarrow> error option outcome \<times> ('t DB \<times> 't world)" where
  "Write eng dbName key val s =
     (let (dbi, err) = validateArgs (fst s) dbName key in
      if err \<noteq> None then (Return err, s)
      else Update (txn_put eng dbi key val 0) s)"

definition Delete ::
  "'t engine \<Rightarrow> string \<Rightarrow> bytes \<Rightarrow> 't DB \<times> 't world
     \<Rightarrow> error option outcome \<times> ('t DB \<times> 't world)" where
  "Delete eng dbName key s =
     (let (dbi, err) = validateArgs (fst s) dbName key in
      if err \<noteq> None then (Return err, s)
      else Update (txn_del eng dbi key None) s)"

text \<open>
  \<open>Close\<close>: inside \<open>closeOnce.Do\<close> the flag is stored, the channel is closed (closing a
  closed channel panics), \<open>wg.Wait()\<close> returns when the goroutine has drained the buffer
  and exited, and the environment is closed. A \<open>sync.Once\<close> counts a call that panicked
  as done.
\<close>

definition Close :: "'t DB \<times> 't world \<Rightarrow> unit outcome \<times> ('t DB \<times> 't world)" where
  "Close s =
     (let db = fst s; w = snd s in
      if closeOnce db then (Return (), s)
      else
        let db1 = db\<lparr>closed := 1\<rparr> in
        if uOps_closed db1 then (Panics, (db1\<lparr>closeOnce := True\<rparr>, w))
        else
          let s3 = worker_run (db1\<lparr>uOps_closed := True\<rparr>, w) in
          if wg (fst s3) \<noteq> 0 then (Blocks, s3)
          else (Return (), ((fst s3)\<lparr>closeOnce := True\<rparr>, call Call_EnvClose (snd s3))))"


text \<open>The calls \<open>New\<close> itself made: what it appended to the trace.\<close>

definition calls_of_New :: "'t engine \<Rightarrow> string \<Rightarrow> string list \<Rightarrow> 't world \<Rightarrow> call list" where
  "calls_of_New eng dirPath dbNames w =
     drop (length (trace w)) (trace (snd (New eng dirPath dbNames w)))"

text \<open>
  The world in which a request submitted now will run: the update goroutine has first
  worked through the requests that are ahead of it in the buffer.
\<close>

definition before_update :: "'t DB \<times> 't world \<Rightarrow> 't world" where
  "before_update s = worker_loop (uOps (fst s)) (snd s)"

section \<open>The earlier facade of \<^verbatim>\<open>wrap/wrap.go\<close>\<close>

text \<open>
  \<^verbatim>\<open>wrap/wrap.go\<close> holds an earlier version of the package: the same \<open>New\<close>, \<open>parseArgs\<close>
  for \<open>validateArgs\<close>, an unexported \<open>update\<close> without the closed flag and a \<open>Close\<close>
  without the \<open>sync.Once\<close>. Its struct has no \<open>closeOnce\<close> and no \<open>closed\<close> field; the two
  functions below leave them alone.
\<close>

definition update :: "'t TxnOp \<Rightarrow> 't DB \<times> 't world \<Rightarrow> error option outcome \<times> ('t DB \<times> 't world)" where
  "update f s =
     (let db = fst s; w = snd s; r = next_chan w; w1 = w\<lparr>next_chan := r + 1\<rparr> in
      if uOps_closed db then (Panics, (db, w1))
      else
        let s2 = worker_run (db\<lparr>uOps := uOps db @ [\<lparr>op = f, res = r\<rparr>]\<rparr>, w1) in
        case results (snd s2) r of
          None \<Rightarrow> (Blocks, s2)
        | Some e \<Rightarrow> (Return e, s2))"

definition Close_v0 :: "'t DB \<times> 't world \<Rightarrow> unit outcome \<times> ('t DB \<times> 't world)" where
  "Close_v0 s =
     (let db = fst s; w = snd s in
      if uOps_closed db then (Panics, s)
      else
        let s3 = worker_run (db\<lparr>uOps_closed := True\<rparr>, w) in
        if wg (fst s3) \<noteq> 0 then (Blocks, s3)
        else (Return (), (fst s3, call Call_EnvClose (snd s3))))"

section \<open>The states between two calls\<close>

text \<open>
  When no call is in progress the \<open>DB\<close> is in one of two shapes: open, as \<open>New\<close> returned
  it (flag 0, channel open, goroutine running), or closed, as \<open>Close\<close> left it. In both
  the buffer is empty and has the capacity \<open>New\<close> gave it.
\<close>

definition DB_ok :: "'t DB \<times> 't world \<Rightarrow> bool" where
  "DB_ok s =
     (let db = fst s in
      uOps db = [] \<and> uOps_cap db = 1000 \<and>
      (if closed db = 0 then \<not> closeOnce db \<and> \<not> uOps_closed db \<and> wg db = 1
       else closeOnce db \<and> uOps_closed db \<and> wg db = 0))"

section \<open>Concurrent callers: the write coordinator as a transition system\<close>

text \<open>
  With several goroutines inside \<open>Update\<close> and \<open>Close\<close> at once, the program is the
  interleaving of their atomic steps. The update goroutine is at its \<open>range\<close> receive,
  inside \<open>UpdateLocked\<close> for a request, at the send of a result, or gone.
\<close>

datatype 't worker_pc = W_recv | W_txn "'t updateOp" | W_send nat "error option" | W_done

text \<open>
  The function passed to \<open>closeOnce.Do\<close> runs in one goroutine at most; this is where it
  stands: not entered, entered, flag stored, channel closed, \<open>wg.Wait()\<close> returned,
  environment closed.
\<close>

datatype close_pc = T_idle | T_started | T_flag | T_chan | T_wait | T_done

text \<open>
  A configuration: the struct and the world, the update goroutine, the callers of
  \<open>Update\<close> that have passed the flag check and made their channel but not yet sent
  (\<open>senders\<close>), the teardown, and whether a goroutine has panicked. The remaining fields
  record history and do not influence any step: how many times \<open>Close\<close> was called, how
  many times the teardown was entered, the requests in the order their sends completed,
  the requests in the order the update goroutine received them and called \<open>UpdateLocked\<close>,
  and the result channels of the requests whose write transaction is open.
\<close>

record 't conf =
  cdb :: "'t DB"
  cw :: "'t world"
  worker :: "'t worker_pc"
  senders :: "'t updateOp list"
  teardown :: close_pc
  panicked :: bool
  close_calls :: nat
  teardowns :: nat
  sent_log :: "'t updateOp list"
  exec_log :: "'t updateOp list"
  open_txns :: "nat list"

text \<open>
  The atomic steps. \<open>Ev_Update f\<close>: a goroutine calls \<open>Update(f)\<close> and loads the flag.
  \<open>Ev_send r\<close>: the caller with result channel \<open>r\<close> sends its request on \<open>uOps\<close>.
  \<open>Ev_take\<close>, \<open>Ev_finish\<close>, \<open>Ev_deliver\<close>, \<open>Ev_exit\<close>: the update goroutine receives a
  request and calls \<open>UpdateLocked\<close>, the transaction ends, the result is sent to the
  caller, the \<open>range\<close> loop ends. \<open>Ev_Close\<close>: a goroutine calls \<open>Close\<close> and reaches the
  \<open>sync.Once\<close>. \<open>Ev_flag\<close>, \<open>Ev_chan\<close>, \<open>Ev_wait\<close>, \<open>Ev_env\<close>: the four statements of the
  teardown.
\<close>

datatype 't event =
    Ev_Update "'t TxnOp"
  | Ev_send nat
  | Ev_take
  | Ev_finish
  | Ev_deliver
  | Ev_exit
  | Ev_Close
  | Ev_flag
  | Ev_chan
  | Ev_wait
  | Ev_env

text \<open>
  \<open>fire e c\<close> is the configuration after step \<open>e\<close>, or \<open>None\<close> when the step cannot be
  taken in \<open>c\<close> (the goroutine is elsewhere, or blocked: a send on a full buffer, a
  receive on an empty one, \<open>wg.Wait()\<close> with the goroutine still running). A call of
  \<open>Update\<close> that finds the flag set returns \<open>ErrDBClosed\<close> and changes nothing. A call of
  \<open>Close\<close> that finds the \<open>sync.Once\<close> taken waits for it and returns.
\<close>

fun fire :: "'t event \<Rightarrow> 't conf \<Rightarrow> 't conf option" where
  "fire (Ev_Update f) c =
     (if closed (cdb c) \<noteq> 0 then Some c
      else Some (c\<lparr>senders := senders c @ [\<lparr>op = f, res = next_chan (cw c)\<rparr>],
                   cw := (cw c)\<lparr>next_chan := next_chan (cw c) + 1\<rparr>\<rparr>))"
| "fire (Ev_send r) c =
     (case find (\<lambda>u. res u = r) (senders c) of
        None \<Rightarrow> None
      | Some u \<Rightarrow>
          if uOps_closed (cdb c) then Some (c\<lparr>panicked := True\<rparr>)
          else if length (uOps (cdb c)) < uOps_cap (cdb c)
          then Some (c\<lparr>cdb := (cdb c)\<lparr>uOps := uOps (cdb c) @ [u]\<rparr>,
                       senders := filter (\<lambda>v. res v \<noteq> r) (senders c),
                       sent_log := sent_log c @ [u]\<rparr>)
          else None)"
| "fire Ev_take c =
     (case (worker c, uOps (cdb c)) of
        (W_recv, u # q) \<Rightarrow>
          Some (c\<lparr>cdb := (cdb c)\<lparr>uOps := q\<rparr>, worker := W_txn u,
                  exec_log := exec_log c @ [u], open_txns := res u # open_txns c\<rparr>)
      | _ \<Rightarrow> None)"
| "fire Ev_finish c =
     (case worker c of
        W_txn u \<Rightarrow>
          (let (err, w') = env_UpdateLocked (op u) (cw c)
           in Some (c\<lparr>cw := w', worker := W_send (res u) err,
                      open_txns := remove1 (res u) (open_txns c)\<rparr>))
      | _ \<Rightarrow> None)"
| "fire Ev_deliver c =
     (case worker c of
        W_send r err \<Rightarrow>
          Some (c\<lparr>cw := (cw c)\<lparr>results := (results (cw c))(r \<mapsto> err)\<rparr>, worker := W_recv\<rparr>)
      | _ \<Rightarrow> None)"
| "fire Ev_exit c =
     (case (worker c, uOps (cdb c)) of
        (W_recv, []) \<Rightarrow>
          if uOps_closed (cdb c)
          then Some (c\<lparr>cdb := (cdb c)\<lparr>wg := wg (cdb c) - 1\<rparr>, worker := W_done\<rparr>)
          else None
      | _ \<Rightarrow> None)"
| "fire Ev_Close c =
     (if teardown c = T_idle
      then Some (c\<lparr>teardown := T_started, close_calls := close_calls c + 1,
                   teardowns := teardowns c + 1\<rparr>)
      else Some (c\<lparr>close_calls := close_calls c + 1\<rparr>))"
| "fire Ev_flag c =
     (if teardown c = T_started
      then Some (c\<lparr>cdb := (cdb c)\<lparr>closed := 1\<rparr>, teardown := T_flag\<rparr>)
      else None)"
| "fire Ev_chan c =
     (if teardown c = T_flag
      then if uOps_closed (cdb c) then Some (c\<lparr>panicked := True\<rparr>)
           else Some (c\<lparr>cdb := (cdb c)\<lparr>uOps_closed := True\<rparr>, teardown := T_chan\<rparr>)
      else None)"
| "fire Ev_wait c =
     (if teardown c = T_chan \<and> wg (cdb c) = 0 then Some (c\<lparr>teardown := T_wait\<rparr>) else None)"
| "fire Ev_env c =
     (if teardown c = T_wait
      then Some (c\<lparr>cdb := (cdb c)\<lparr>closeOnce := True\<rparr>, cw := call Call_EnvClose (cw c),
                   teardown := T_done\<rparr>)
      else None)"

text \<open>A panic ends the process: nothing steps after it.\<close>

definition step :: "'t event \<Rightarrow> 't conf \<Rightarrow> 't conf option" where
  "step e c = (if panicked c then None else fire e c)"

fun run :: "'t event list \<Rightarrow> 't conf \<Rightarrow> 't conf option" where
  "run [] c = Some c"
| "run (e # es) c = (case step e c of None \<Rightarrow> None | Some c' \<Rightarrow> run es c')"

text \<open>The configuration in which \<open>New\<close> leaves the program: the goroutine at its receive.\<close>

definition init_conf :: "'t DB \<times> 't world \<Rightarrow> 't conf" where
  "init_conf s =
     \<lparr>cdb = fst s, cw = snd s, worker = W_recv, senders = [], teardown = T_idle,
      panicked = False, close_calls = 0, teardowns = 0,
      sent_log = [], exec_log = [], open_txns = []\<rparr>"





definition close_inv :: "nat \<Rightarrow> 't conf \<Rightarrow> bool" where
  "close_inv n c \<longleftrightarrow>
     teardowns c = (if teardown c = T_idle then 0 else 1) \<and>
     (close_calls c = 0) = (teardown c = T_idle) \<and>
     count_list (trace (cw c)) Call_EnvClose = n + (if teardown c = T_done then 1 else 0) \<and>
     closed (cdb c) = (if teardown c \<in> {T_idle, T_started} then 0 else 1) \<and>
     uOps_closed (cdb c) = (teardown c \<in> {T_chan, T_wait, T_done}) \<and>
     closeOnce (cdb c) = (teardown c = T_done) \<and>
     wg (cdb c) = (if worker c = W_done then 0 else 1) \<and>
     (worker c = W_done \<longrightarrow> uOps (cdb c) = [] \<and> uOps_closed (cdb c)) \<and>
     (teardown c \<in> {T_wait, T_done} \<longrightarrow> worker c = W_done)"

section \<open>An engine to run the wrapper on\<close>

text \<open>
  A small key-value engine for concrete runs: every configuration call succeeds, the
  databases \<open>a\<close> and \<open>b\<close> can be opened and no other, and a transaction's view is a map
  from handle and key to value. The errno values are those of \<^verbatim>\<open>lmdb.h\<close>
  (\<open>MDB_NOTFOUND\<close>, \<open>MDB_DBS_FULL\<close>) and of the operating system.
\<close>

type_synonym kv = "DBI \<times> 8 word list \<rightharpoonup> 8 word list"

definition data :: "bytes \<Rightarrow> 8 word list" where
  "data b = (case b of None \<Rightarrow> [] | Some xs \<Rightarrow> xs)"

definition kv_engine :: "kv engine" where
  "kv_engine =
     \<lparr>mkdir_all = (\<lambda>p. None),
      new_env = None,
      set_max_dbs = (\<lambda>n. None),
      set_map_size = (\<lambda>n. None),
      env_open = (\<lambda>p. None),
      reader_check = (0, None),
      create_dbi = (\<lambda>n. if n = ''a'' then (2, None) else if n = ''b'' then (3, None)
                         else (0, Some (OpError ''mdb_dbi_open'' (- 30791)))),
      txn_get = (\<lambda>dbi key t. case t (dbi, data key) of
                   None \<Rightarrow> (None, Some (OpError ''mdb_get'' (- 30798)))
                 | Some v \<Rightarrow> (Some v, None)),
      txn_put = (\<lambda>dbi key val flags t. (None, t((dbi, data key) \<mapsto> data val))),
      txn_del = (\<lambda>dbi key val t. case t (dbi, data key) of
                   None \<Rightarrow> (Some (OpError ''mdb_del'' (- 30798)), t)
                 | Some v \<Rightarrow> (None, t((dbi, data key) := None)))\<rparr>"

definition failing_max_dbs_engine :: "kv engine" where
  "failing_max_dbs_engine =
     kv_engine\<lparr>set_max_dbs := (\<lambda>n. Some (OpError ''mdb_env_set_maxdbs'' 22))\<rparr>"

definition failing_map_size_engine :: "kv engine" where
  "failing_map_size_engine =
     kv_engine\<lparr>set_map_size := (\<lambda>n. Some (OpError ''mdb_env_set_mapsize'' 22))\<rparr>"

definition failing_open_engine :: "kv engine" where
  "failing_open_engine = kv_engine\<lparr>env_open := (\<lambda>p. Some (OpError ''mdb_env_open'' 13))\<rparr>"

definition world0 :: "kv world" where
  "world0 = \<lparr>trace = [], store = Map.empty, results = Map.empty, next_chan = 0\<rparr>"

text \<open>The \<open>DB\<close> and the world after \<open>New("dir", []string{"a", "b"})\<close>.\<close>

definition opened :: "kv DB \<times> kv world" where
  "opened = (the (fst (fst (New kv_engine ''dir'' [''a'', ''b''] world0))),
             snd (New kv_engine ''dir'' [''a'', ''b''] world0))"

text \<open>The operation of \<open>Write("a", "k", v)\<close>.\<close>

definition put_k :: "8 word \<Rightarrow> kv TxnOp" where
  "put_k v = txn_put kv_engine 2 (Some [107]) (Some [v]) 0"


text \<open>Three calls of \<open>Close\<close> around one write in flight.\<close>

definition closing_run :: "kv event list" where
  "closing_run =
     [Ev_Update (put_k 1), Ev_Close, Ev_send 0, Ev_Close, Ev_flag, Ev_take, Ev_chan,
      Ev_finish, Ev_deliver, Ev_exit, Ev_wait, Ev_env, Ev_Close]"

section \<open>Basic facts\<close>

lemma len_simps [simp]: "len None = 0" "len (Some xs) = length xs"
  by (simp_all add: len_def)

lemma trace_call [simp]: "trace (call c w) = trace w @ [c]"
  by (simp add: call_def)

lemma MapSize_val: "MapSize = 10737418240"
  by (simp add: MapSize_def)

lemma trace_env_UpdateLocked:
  "trace (snd (env_UpdateLocked f w)) = trace w @ [Call_UpdateLocked]"
  by (cases "f (store w)") (auto simp: env_UpdateLocked_def split: option.splits)


lemma env_UpdateLocked_next_chan:
  "env_UpdateLocked f (w\<lparr>next_chan := n\<rparr>) =
     (fst (env_UpdateLocked f w), (snd (env_UpdateLocked f w))\<lparr>next_chan := n\<rparr>)"
  by (simp add: env_UpdateLocked_def call_def split: prod.splits option.splits)

subsection \<open>The two loops of New\<close>

lemma seen_loop_iff_gen:
  "seen_loop ns seen \<longleftrightarrow> (\<not> distinct ns \<or> (\<exists>n \<in> set ns. seen n \<noteq> None))"
  by (induction ns arbitrary: seen) auto

lemma seen_loop_iff: "seen_loop ns Map.empty \<longleftrightarrow> \<not> distinct ns"
  by (simp add: seen_loop_iff_gen)

lemma open_loop_trace:
  "\<exists>cs. trace (snd (snd (open_loop eng names d w))) = trace w @ cs \<and>
        (\<forall>p a b. Call_Open p a b \<notin> set cs)"
proof (induction names arbitrary: d w)
  case Nil
  show ?case by simp
next
  case (Cons name names)
  obtain dbi err where ce: "create_dbi eng name = (dbi, err)" by (cases "create_dbi eng name")
  show ?case
  proof (cases "err = None")
    case False
    with ce show ?thesis by simp
  next
    case True
    let ?d = "d\<lparr>dbs := (dbs d)(name \<mapsto> dbi)\<rparr>"
    let ?w = "call (Call_Update_CreateDBI name) w"
    from Cons.IH [of ?d ?w] obtain cs where
      "trace (snd (snd (open_loop eng names ?d ?w))) = trace ?w @ cs"
      "\<forall>p a b. Call_Open p a b \<notin> set cs" by blast
    with ce True show ?thesis by simp
  qed
qed

lemma open_loop_fields:
  "open_loop eng names d w = (e, d', w') \<Longrightarrow>
     uOps_cap d' = uOps_cap d \<and> uOps d' = uOps d \<and> uOps_closed d' = uOps_closed d \<and>
     wg d' = wg d \<and> closeOnce d' = closeOnce d \<and> closed d' = closed d"
proof (induction names arbitrary: d w)
  case Nil
  then show ?case by simp
next
  case (Cons name names)
  obtain dbi err where ce: "create_dbi eng name = (dbi, err)" by (cases "create_dbi eng name")
  show ?case
  proof (cases "err = None")
    case False
    with ce Cons.prems show ?thesis by auto
  next
    case True
    with ce Cons.prems have
      "open_loop eng names (d\<lparr>dbs := (dbs d)(name \<mapsto> dbi)\<rparr>) (call (Call_Update_CreateDBI name) w)
         = (e, d', w')" by simp
    from Cons.IH [OF this] show ?thesis by simp
  qed
qed

lemma open_loop_fails:
  assumes "find (\<lambda>n. snd (create_dbi eng n) \<noteq> None) names = Some name"
  shows "fst (open_loop eng names d w) = snd (create_dbi eng name) \<and>
         trace (snd (snd (open_loop eng names d w))) =
           trace w @ map Call_Update_CreateDBI (takeWhile (\<lambda>n. snd (create_dbi eng n) = None) names)
             @ [Call_Update_CreateDBI name, Call_EnvClose]"
  using assms
proof (induction names arbitrary: d w)
  case Nil
  then show ?case by simp
next
  case (Cons n names)
  obtain dbi err where ce: "create_dbi eng n = (dbi, err)" by (cases "create_dbi eng n")
  show ?case
  proof (cases "err = None")
    case False
    with ce Cons.prems show ?thesis by auto
  next
    case True
    with ce Cons.prems have "find (\<lambda>n. snd (create_dbi eng n) \<noteq> None) names = Some name"
      by simp
    from Cons.IH [OF this] ce True show ?thesis by simp
  qed
qed

lemma New_queue:
  "New eng dirPath dbNames w = ((Some db, n, e), w') \<Longrightarrow> uOps_cap db = 1000 \<and> uOps db = []"
  by (auto simp: New_def Let_def split: if_splits prod.splits dest!: open_loop_fields)

lemma New_calls_prefix:
  assumes "Call_Open p a b \<in> set (calls_of_New eng dirPath dbNames w)"
  shows "take 5 (calls_of_New eng dirPath dbNames w) =
           [Call_MkdirAll dirPath 493, Call_NewEnv, Call_SetMaxDBs (int (length dbNames)),
            Call_SetMapSize 10737418240, Call_Open dirPath 0 420]"
proof -
  let ?d = "\<lparr>dbs = Map.empty, uOps = [], uOps_cap = 1000, uOps_closed = False,
             wg = 0, closeOnce = False, closed = 0\<rparr> :: 't DB"
  let ?w6 = "call Call_ReaderCheck (call (Call_Open dirPath 0 420) (call (Call_SetMapSize MapSize)
     (call (Call_SetMaxDBs (int (length dbNames))) (call Call_NewEnv
       (call (Call_MkdirAll dirPath 493) w)))))"
  obtain cs where cs: "trace (snd (snd (open_loop eng dbNames ?d ?w6))) = trace ?w6 @ cs"
    using open_loop_trace [of eng dbNames ?d ?w6] by blast
  show ?thesis
    using assms cs
    by (auto simp: calls_of_New_def New_def Let_def MapSize_val split: if_splits prod.splits)
qed

lemma New_success_calls:
  assumes "New eng dirPath dbNames w = ((Some db, n, e), w')"
  shows "Call_Open dirPath 0 420 \<in> set (calls_of_New eng dirPath dbNames w)"
proof -
  let ?d = "\<lparr>dbs = Map.empty, uOps = [], uOps_cap = 1000, uOps_closed = False,
             wg = 0, closeOnce = False, closed = 0\<rparr> :: 't DB"
  let ?w6 = "call Call_ReaderCheck (call (Call_Open dirPath 0 420) (call (Call_SetMapSize MapSize)
     (call (Call_SetMaxDBs (int (length dbNames))) (call Call_NewEnv
       (call (Call_MkdirAll dirPath 493) w)))))"
  obtain cs where cs: "trace (snd (snd (open_loop eng dbNames ?d ?w6))) = trace ?w6 @ cs"
    using open_loop_trace [of eng dbNames ?d ?w6] by blast
  show ?thesis
    using assms cs
    by (auto simp: calls_of_New_def New_def Let_def split: if_splits prod.splits)
qed

text \<open>
  The three early returns of \<open>New\<close> after \<open>NewEnv\<close>: whatever the engine, the error comes
  back and the environment is not closed.
\<close>

lemma New_early_failure_no_close:
  assumes "distinct dbNames" and "mkdir_all eng dirPath = None" and "new_env eng = None"
    and "set_max_dbs eng (int (length dbNames)) \<noteq> None \<or> set_map_size eng MapSize \<noteq> None \<or>
         env_open eng dirPath \<noteq> None"
  shows "fst (fst (New eng dirPath dbNames w)) = None \<and>
         snd (snd (fst (New eng dirPath dbNames w))) \<noteq> None \<and>
         Call_NewEnv \<in> set (calls_of_New eng dirPath dbNames w) \<and>
         Call_EnvClose \<notin> set (calls_of_New eng dirPath dbNames w)"
  using assms by (auto simp: New_def calls_of_New_def seen_loop_iff Let_def)

subsection \<open>The update goroutine\<close>

lemma worker_loop_append: "worker_loop (q @ [u]) w = worker_exec u (worker_loop q w)"
  by (induction q arbitrary: w) simp_all

lemma worker_exec_next_chan:
  "worker_exec u (w\<lparr>next_chan := n\<rparr>) = (worker_exec u w)\<lparr>next_chan := n\<rparr>"
  by (simp add: worker_exec_def env_UpdateLocked_next_chan split: prod.splits)

lemma worker_loop_next_chan:
  "worker_loop q (w\<lparr>next_chan := n\<rparr>) = (worker_loop q w)\<lparr>next_chan := n\<rparr>"
  by (induction q arbitrary: w) (simp_all add: worker_exec_next_chan)

lemma worker_exec_fields:
  "results (worker_exec u w) r =
     (if r = res u then Some (fst (env_UpdateLocked (op u) w))
      else results (snd (env_UpdateLocked (op u) w)) r)"
  "store (worker_exec u w) = store (snd (env_UpdateLocked (op u) w))"
  "trace (worker_exec u w) = trace (snd (env_UpdateLocked (op u) w))"
  by (simp_all add: worker_exec_def split: prod.splits)

text \<open>
  \<open>Update\<close> on an open \<open>DB\<close>: the request runs after those ahead of it, and the caller
  gets what \<open>UpdateLocked\<close> returned.
\<close>

lemma Update_open:
  assumes "closed (fst s) = 0" and "\<not> uOps_closed (fst s)" and "wg (fst s) \<noteq> 0"
  shows "Update f s =
           (Return (fst (env_UpdateLocked f (before_update s))),
            ((fst s)\<lparr>uOps := []\<rparr>,
             (worker_exec \<lparr>op = f, res = next_chan (snd s)\<rparr> (before_update s))
               \<lparr>next_chan := next_chan (snd s) + 1\<rparr>))"
  using assms
  by (simp add: Update_def worker_run_def Let_def before_update_def worker_loop_append
      worker_loop_next_chan worker_exec_next_chan worker_exec_fields env_UpdateLocked_next_chan)

text \<open>On a \<open>DB\<close> whose flag is 0 the \<open>update\<close> of \<^verbatim>\<open>wrap/wrap.go\<close> is \<open>Update\<close>.\<close>

lemma update_open: "closed (fst s) = 0 \<Longrightarrow> update f s = Update f s"
  by (simp add: update_def Update_def Let_def)

subsection \<open>The states between two calls are kept\<close>

lemma New_DB_ok:
  "New eng dirPath dbNames w = ((Some db, n, e), w') \<Longrightarrow> DB_ok (db, w')"
  by (auto simp: New_def Let_def DB_ok_def split: if_splits prod.splits dest!: open_loop_fields)

lemma Close_DB_ok:
  assumes "DB_ok s"
  shows "fst (Close s) = Return ()" and "DB_ok (snd (Close s))"
    and "closed (fst (snd (Close s))) \<noteq> 0"
  using assms by (auto simp: DB_ok_def Close_def worker_run_def Let_def split: if_splits)

lemma Update_DB_ok:
  assumes "DB_ok s"
  shows "\<exists>e. fst (Update f s) = Return e" and "DB_ok (snd (Update f s))"
proof -
  show "\<exists>e. fst (Update f s) = Return e"
  proof (cases "closed (fst s) = 0")
    case True
    with assms show ?thesis by (simp add: Update_open DB_ok_def Let_def)
  next
    case False
    then show ?thesis by (simp add: Update_def)
  qed
  show "DB_ok (snd (Update f s))"
  proof (cases "closed (fst s) = 0")
    case True
    with assms show ?thesis by (simp add: Update_open DB_ok_def Let_def)
  next
    case False
    with assms show ?thesis by (simp add: Update_def)
  qed
qed

lemma View_DB_ok: "DB_ok s \<Longrightarrow> DB_ok (snd (View f s))"
  by (simp add: View_def DB_ok_def env_View_def Let_def)

lemma Read_DB_ok: "DB_ok s \<Longrightarrow> DB_ok (snd (Read eng dbName key s))"
  by (simp add: Read_def DB_ok_def env_View_def Let_def split: prod.splits)

lemma Write_DB_ok: "DB_ok s \<Longrightarrow> DB_ok (snd (Write eng dbName key val s))"
  by (simp add: Write_def Update_DB_ok split: prod.splits)

lemma Delete_DB_ok: "DB_ok s \<Longrightarrow> DB_ok (snd (Delete eng dbName key s))"
  by (simp add: Delete_def Update_DB_ok split: prod.splits)

subsection \<open>The example engine\<close>

lemma opened_eq:
  "opened =
     (\<lparr>dbs = [''a'' \<mapsto> 2, ''b'' \<mapsto> 3], uOps = [], uOps_cap = 1000, uOps_closed = False,
       wg = 1, closeOnce = False, closed = 0\<rparr>,
      \<lparr>trace = [Call_MkdirAll ''dir'' 493, Call_NewEnv, Call_SetMaxDBs 2,
                Call_SetMapSize 10737418240, Call_Open ''dir'' 0 420, Call_ReaderCheck,
                Call_Update_CreateDBI ''a'', Call_Update_CreateDBI ''b''],
       store = Map.empty, results = Map.empty, next_chan = 0\<rparr>)"
  by (simp add: opened_def New_def kv_engine_def world0_def call_def MapSize_val Let_def)

lemma New_opened:
  "New kv_engine ''dir'' [''a'', ''b''] world0 = ((Some (fst opened), 0, None), snd opened)"
  by (simp add: opened_eq) (simp add: New_def kv_engine_def world0_def call_def MapSize_val Let_def)

lemma opened_ok: "DB_ok opened" "closed (fst opened) = 0"
  by (simp_all add: DB_ok_def opened_eq)

text \<open>
  The \<open>Close\<close> of \<^verbatim>\<open>wrap/wrap.go\<close> has no guard: called a second time it closes a closed
  channel.
\<close>

lemma Close_v0_twice_panics:
  "fst (Close_v0 opened) = Return () \<and> fst (Close_v0 (snd (Close_v0 opened))) = Panics"
  by (simp add: Close_v0_def worker_run_def opened_eq Let_def)

subsection \<open>The transition system\<close>

lemma run_invariant:
  assumes "\<And>e c c'. P c \<Longrightarrow> fire e c = Some c' \<Longrightarrow> P c'"
  shows "P c \<Longrightarrow> run es c = Some c' \<Longrightarrow> P c'"
proof (induction es arbitrary: c)
  case Nil
  then show ?case by simp
next
  case (Cons e es)
  from Cons.prems(2) obtain c1 where s: "step e c = Some c1" and r: "run es c1 = Some c'"
    by (auto split: option.splits)
  from s have "fire e c = Some c1" by (simp add: step_def split: if_splits)
  with Cons.prems(1) have "P c1" by (rule assms)
  from this r show ?case by (rule Cons.IH)
qed









lemma fire_close_inv:
  assumes "close_inv n c" and "fire e c = Some c'"
  shows "close_inv n c'"
proof (cases e)
  case Ev_finish
  with assms(2) obtain u where w: "worker c = W_txn u"
    and c': "c' = c\<lparr>cw := snd (env_UpdateLocked (op u) (cw c)),
                     worker := W_send (res u) (fst (env_UpdateLocked (op u) (cw c))),
                     open_txns := remove1 (res u) (open_txns c)\<rparr>"
    by (auto split: worker_pc.splits prod.splits)
  with assms(1) show ?thesis
    by (simp add: close_inv_def trace_env_UpdateLocked)
next
  case Ev_Close
  with assms show ?thesis by (clarsimp simp: close_inv_def split: if_splits)
next
  case Ev_flag
  with assms show ?thesis by (clarsimp simp: close_inv_def split: if_splits)
next
  case Ev_chan
  with assms show ?thesis by (clarsimp simp: close_inv_def split: if_splits)
next
  case Ev_wait
  with assms show ?thesis by (clarsimp simp: close_inv_def split: if_splits)
next
  case Ev_env
  with assms show ?thesis by (clarsimp simp: close_inv_def split: if_splits)
next
  case (Ev_Update f)
  with assms show ?thesis by (clarsimp simp: close_inv_def split: if_splits)
next
  case (Ev_send r)
  with assms show ?thesis
    by (clarsimp simp: close_inv_def split: if_splits option.splits)
next
  case Ev_take
  with assms show ?thesis
    by (clarsimp simp: close_inv_def split: if_splits worker_pc.splits list.splits)
next
  case Ev_deliver
  with assms show ?thesis
    by (clarsimp simp: close_inv_def split: if_splits worker_pc.splits)
next
  case Ev_exit
  with assms show ?thesis
    by (clarsimp simp: close_inv_def split: if_splits worker_pc.splits list.splits)
qed



lemma init_close_inv:
  "DB_ok s \<Longrightarrow> closed (fst s) = 0 \<Longrightarrow>
     close_inv (count_list (trace (snd s)) Call_EnvClose) (init_conf s)"
  by (simp add: close_inv_def init_conf_def DB_ok_def Let_def)

text \<open>
  The calls of the facade are runs of the transition system: a single caller of \<open>Update\<close>
  or \<open>Close\<close>, with the update goroutine scheduled whenever the caller waits, ends where
  the function \<open>Update\<close> or \<open>Close\<close> says.
\<close>

lemma Update_as_run:
  assumes "DB_ok s" and "closed (fst s) = 0"
  shows "run [Ev_Update f, Ev_send (next_chan (snd s)), Ev_take, Ev_finish, Ev_deliver] (init_conf s)
           = Some ((init_conf (snd (Update f s)))
                     \<lparr>sent_log := [\<lparr>op = f, res = next_chan (snd s)\<rparr>],
                      exec_log := [\<lparr>op = f, res = next_chan (snd s)\<rparr>]\<rparr>)"
proof -
  from assms have o: "\<not> uOps_closed (fst s)" "wg (fst s) \<noteq> 0" "uOps (fst s) = []"
    "uOps_cap (fst s) = 1000"
    by (simp_all add: DB_ok_def Let_def)
  obtain err w' where e: "env_UpdateLocked f (snd s) = (err, w')"
    by (cases "env_UpdateLocked f (snd s)")
  show ?thesis
    using assms(2) o e
    by (simp add: Update_open before_update_def step_def init_conf_def worker_exec_def
        env_UpdateLocked_next_chan)
qed

lemma Close_as_run:
  assumes "DB_ok s" and "closed (fst s) = 0"
  shows "run [Ev_Close, Ev_flag, Ev_chan, Ev_exit, Ev_wait, Ev_env] (init_conf s)
           = Some ((init_conf (snd (Close s)))
                     \<lparr>worker := W_done, teardown := T_done, close_calls := 1, teardowns := 1\<rparr>)"
  using assms
  by (simp add: Close_def worker_run_def DB_ok_def Let_def step_def init_conf_def)


lemma closing_run_result:
  "\<exists>c. run closing_run (init_conf opened) = Some c \<and>
       close_calls c = 3 \<and> teardown c = T_done \<and> map res (exec_log c) = [0] \<and>
       results (cw c) 0 = Some None \<and>
       trace (cw c) = trace (snd opened) @ [Call_UpdateLocked, Call_EnvClose]"
  by (simp add: closing_run_def init_conf_def opened_eq step_def put_k_def kv_engine_def
      env_UpdateLocked_def call_def data_def)

section \<open>The claims\<close>

text \<open>
  Claim C1, as amended. After \<open>Close\<close> has returned, \<open>Update\<close> and \<open>View\<close> return
  \<open>ErrDBClosed\<close>; \<open>Write\<close> and \<open>Delete\<close> return the error of \<open>validateArgs\<close> when their
  arguments are rejected and \<open>ErrDBClosed\<close> otherwise; \<open>Read\<close> with rejected arguments
  returns the error of \<open>validateArgs\<close>. Each of these calls returns at once and leaves
  the \<open>DB\<close> and the world as they were: nothing is queued and the environment is not
  called. \<open>Read\<close> with accepted arguments is left out: it has no check of the flag.
\<close>

theorem after_Close_fail_fast:
  assumes "DB_ok s"
  shows "fst (Close s) = Return () \<and>
         Update f (snd (Close s)) = (Return (Some ErrDBClosed), snd (Close s)) \<and>
         View f (snd (Close s)) = (Return (Some ErrDBClosed), snd (Close s)) \<and>
         Write eng dbName key val (snd (Close s)) =
           (Return (Some (case snd (validateArgs (fst s) dbName key) of
                            None \<Rightarrow> ErrDBClosed | Some e \<Rightarrow> e)), snd (Close s)) \<and>
         Delete eng dbName key (snd (Close s)) =
           (Return (Some (case snd (validateArgs (fst s) dbName key) of
                            None \<Rightarrow> ErrDBClosed | Some e \<Rightarrow> e)), snd (Close s)) \<and>
         (snd (validateArgs (fst s) dbName key) \<noteq> None \<longrightarrow>
            Read eng dbName key (snd (Close s)) =
              (Return (None, snd (validateArgs (fst s) dbName key)), snd (Close s)))"
proof -
  have c: "closed (fst (snd (Close s))) \<noteq> 0" and r: "fst (Close s) = Return ()"
    using Close_DB_ok [OF assms] by simp_all
  have v: "validateArgs (fst (snd (Close s))) dbName key = validateArgs (fst s) dbName key"
    by (simp add: validateArgs_def Close_def worker_run_def Let_def)
  obtain dbi err where va: "validateArgs (fst s) dbName key = (dbi, err)"
    by (cases "validateArgs (fst s) dbName key")
  show ?thesis
    using c r v va
    by (cases err) (simp_all add: Update_def View_def Write_def Delete_def Read_def Let_def)
qed

theorem after_Close_fail_fast_witness:
  "DB_ok opened \<and>
   Update (put_k 1) (snd (Close opened)) = (Return (Some ErrDBClosed), snd (Close opened)) \<and>
   View (put_k 1) (snd (Close opened)) = (Return (Some ErrDBClosed), snd (Close opened)) \<and>
   Write kv_engine ''a'' (Some [107]) (Some [118]) (snd (Close opened)) =
     (Return (Some ErrDBClosed), snd (Close opened)) \<and>
   Delete kv_engine ''a'' None (snd (Close opened)) =
     (Return (Some ErrEmptyKey), snd (Close opened))"
proof -
  have va: "validateArgs (fst opened) ''a'' (Some [107]) = (2, None)"
    "validateArgs (fst opened) ''a'' None = (0, Some ErrEmptyKey)"
    by (simp_all add: validateArgs_def opened_eq)
  show ?thesis
    using opened_ok(1)
      after_Close_fail_fast [OF opened_ok(1), of "put_k 1" kv_engine "''a''" "Some [107]" "Some [118]"]
      after_Close_fail_fast [OF opened_ok(1), of "put_k 1" kv_engine "''a''" None None]
    by (simp add: va)
qed

text \<open>
  Claim C1 as stated fails twice after \<open>New("dir", {"a", "b"})\<close> and \<open>Close()\<close>.
  \<open>Write("", "k", "v")\<close> returns \<open>ErrDbNameNotFound\<close>: \<open>validateArgs\<close> runs before the
  flag is looked at. \<open>Read("a", "k")\<close> does not return \<open>ErrDBClosed\<close> either: \<open>Read\<close> calls
  \<open>db.env.View\<close> itself, not \<open>db.View\<close>, so the closed environment is called (the trace
  ends with the close and then the view) and the caller gets the engine's answer.
\<close>

theorem after_Close_not_always_ErrDBClosed:
  "fst (Close opened) = Return () \<and>
   fst (Write kv_engine [] (Some [107]) (Some [118]) (snd (Close opened))) =
     Return (Some ErrDbNameNotFound) \<and>
   fst (Write kv_engine [] (Some [107]) (Some [118]) (snd (Close opened))) \<noteq>
     Return (Some ErrDBClosed) \<and>
   fst (Read kv_engine ''a'' (Some [107]) (snd (Close opened))) =
     Return (None, Some (OpError ''mdb_get'' (- 30798))) \<and>
   fst (Read kv_engine ''a'' (Some [107]) (snd (Close opened))) \<noteq>
     Return (None, Some ErrDBClosed) \<and>
   trace (snd (snd (Read kv_engine ''a'' (Some [107]) (snd (Close opened))))) =
     trace (snd opened) @ [Call_EnvClose, Call_View]"
  by (simp add: Write_def Read_def validateArgs_def Close_def worker_run_def opened_eq Let_def
      env_View_def kv_engine_def call_def data_def)

text \<open>
  Claim C2 at its failing inputs. When \<open>SetMaxDBs\<close>, \<open>SetMapSize\<close> or \<open>Open\<close> fails,
  \<open>New\<close> returns that error, and the environment handle that \<open>NewEnv\<close> created is not
  closed: the trace holds \<open>NewEnv\<close> and no \<open>Close\<close>. (The two later failure paths of \<open>New\<close>,
  after \<open>ReaderCheck\<close> and in the loop over the names, do close it.)
\<close>

theorem New_config_failure_leaves_env_unclosed:
  "New failing_max_dbs_engine ''dir'' [''a''] world0 =
     ((None, 0, Some (OpError ''mdb_env_set_maxdbs'' 22)),
      world0\<lparr>trace := [Call_MkdirAll ''dir'' 493, Call_NewEnv, Call_SetMaxDBs 1]\<rparr>) \<and>
   New failing_map_size_engine ''dir'' [''a''] world0 =
     ((None, 0, Some (OpError ''mdb_env_set_mapsize'' 22)),
      world0\<lparr>trace := [Call_MkdirAll ''dir'' 493, Call_NewEnv, Call_SetMaxDBs 1,
                        Call_SetMapSize 10737418240]\<rparr>) \<and>
   New failing_open_engine ''dir'' [''a''] world0 =
     ((None, 0, Some (OpError ''mdb_env_open'' 13)),
      world0\<lparr>trace := [Call_MkdirAll ''dir'' 493, Call_NewEnv, Call_SetMaxDBs 1,
                        Call_SetMapSize 10737418240, Call_Open ''dir'' 0 420]\<rparr>) \<and>
   Call_NewEnv \<in> set (trace (snd (New failing_open_engine ''dir'' [''a''] world0))) \<and>
   Call_EnvClose \<notin> set (trace (snd (New failing_max_dbs_engine ''dir'' [''a''] world0))) \<and>
   Call_EnvClose \<notin> set (trace (snd (New failing_map_size_engine ''dir'' [''a''] world0))) \<and>
   Call_EnvClose \<notin> set (trace (snd (New failing_open_engine ''dir'' [''a''] world0)))"
  by (simp add: New_def failing_max_dbs_engine_def failing_map_size_engine_def
      failing_open_engine_def kv_engine_def world0_def call_def MapSize_val Let_def)



text \<open>
  Claim C4. On an open \<open>DB\<close> (flag 0, queue open, update goroutine running), \<open>Update(op)\<close>
  returns exactly what \<open>UpdateLocked(op)\<close> returns in the world the request runs in, and
  leaves the data and the trace as that one write transaction leaves them: nil, with
  the operation's changes committed, when the operation succeeds; the operation's own
  error, with the data unchanged, when it fails. With an empty queue that world is the
  caller's. \<open>Write\<close> and \<open>Delete\<close> with accepted arguments are \<open>Update\<close> of their put and
  delete operations.
\<close>

theorem Update_is_write_transaction:
  assumes "closed (fst s) = 0" and "\<not> uOps_closed (fst s)" and "wg (fst s) \<noteq> 0"
  shows "fst (Update f s) = Return (fst (env_UpdateLocked f (before_update s))) \<and>
         store (snd (snd (Update f s))) = store (snd (env_UpdateLocked f (before_update s))) \<and>
         trace (snd (snd (Update f s))) = trace (before_update s) @ [Call_UpdateLocked] \<and>
         (fst (f (store (before_update s))) = None \<longrightarrow>
            fst (Update f s) = Return None \<and>
            store (snd (snd (Update f s))) = snd (f (store (before_update s)))) \<and>
         (\<forall>e. fst (f (store (before_update s))) = Some e \<longrightarrow>
            fst (Update f s) = Return (Some e) \<and>
            store (snd (snd (Update f s))) = store (before_update s)) \<and>
         (uOps (fst s) = [] \<longrightarrow> before_update s = snd s) \<and>
         (snd (validateArgs (fst s) dbName key) = None \<longrightarrow>
            Write eng dbName key val s =
              Update (txn_put eng (fst (validateArgs (fst s) dbName key)) key val 0) s \<and>
            Delete eng dbName key s =
              Update (txn_del eng (fst (validateArgs (fst s) dbName key)) key None) s)"
proof -
  have "fst (f (store w)) = None \<Longrightarrow>
      fst (env_UpdateLocked f w) = None \<and> store (snd (env_UpdateLocked f w)) = snd (f (store w))"
    for w :: "'a world"
    by (cases "f (store w)") (simp add: env_UpdateLocked_def call_def)
  moreover have "fst (f (store w)) = Some e \<Longrightarrow>
      fst (env_UpdateLocked f w) = Some e \<and> store (snd (env_UpdateLocked f w)) = store w"
    for w :: "'a world" and e
    by (cases "f (store w)") (simp add: env_UpdateLocked_def call_def)
  moreover have "uOps (fst s) = [] \<Longrightarrow> before_update s = snd s"
    by (simp add: before_update_def)
  moreover have "snd (validateArgs (fst s) dbName key) = None \<Longrightarrow>
            Write eng dbName key val s =
              Update (txn_put eng (fst (validateArgs (fst s) dbName key)) key val 0) s \<and>
            Delete eng dbName key s =
              Update (txn_del eng (fst (validateArgs (fst s) dbName key)) key None) s"
    by (cases "validateArgs (fst s) dbName key") (simp add: Write_def Delete_def)
  ultimately show ?thesis
    using assms by (simp add: Update_open worker_exec_fields trace_env_UpdateLocked)
qed

theorem Update_is_write_transaction_witness:
  "fst (Update (txn_put kv_engine 2 (Some [107]) (Some [118]) 0) opened) = Return None \<and>
   store (snd (snd (Update (txn_put kv_engine 2 (Some [107]) (Some [118]) 0) opened)))
     = [(2, [107]) \<mapsto> [118]] \<and>
   fst (Update (txn_del kv_engine 2 (Some [107]) None) opened) =
     Return (Some (OpError ''mdb_del'' (- 30798))) \<and>
   store (snd (snd (Update (txn_del kv_engine 2 (Some [107]) None) opened))) = Map.empty \<and>
   Write kv_engine ''a'' (Some [107]) (Some [118]) opened =
     Update (txn_put kv_engine 2 (Some [107]) (Some [118]) 0) opened"
proof -
  have o: "closed (fst opened) = 0" "\<not> uOps_closed (fst opened)" "wg (fst opened) \<noteq> 0"
    "uOps (fst opened) = []" "store (snd opened) = Map.empty"
    by (simp_all add: opened_eq)
  have va: "validateArgs (fst opened) ''a'' (Some [107]) = (2, None)"
    by (simp add: validateArgs_def opened_eq)
  have bu: "before_update opened = snd opened"
    by (simp add: before_update_def o)
  have p: "txn_put kv_engine 2 (Some [107]) (Some [118]) 0 Map.empty
             = (None, [(2, [107]) \<mapsto> [118]])"
    "txn_del kv_engine 2 (Some [107]) None Map.empty
       = (Some (OpError ''mdb_del'' (- 30798)), Map.empty)"
    by (simp_all add: kv_engine_def data_def)
  note put = Update_is_write_transaction [OF o(1-3),
      of "txn_put kv_engine 2 (Some [107]) (Some [118]) 0" "''a''" "Some [107]" kv_engine "Some [118]"]
  note del = Update_is_write_transaction [OF o(1-3),
      of "txn_del kv_engine 2 (Some [107]) None" "''a''" "Some [107]" kv_engine "Some [118]"]
  have "fst (Update (txn_put kv_engine 2 (Some [107]) (Some [118]) 0) opened) = Return None"
    and "store (snd (snd (Update (txn_put kv_engine 2 (Some [107]) (Some [118]) 0) opened)))
           = [(2, [107]) \<mapsto> [118]]"
    and "Write kv_engine ''a'' (Some [107]) (Some [118]) opened =
           Update (txn_put kv_engine 2 (Some [107]) (Some [118]) 0) opened"
    using put by (auto simp: o va p bu)
  moreover have "fst (Update (txn_del kv_engine 2 (Some [107]) None) opened) =
           Return (Some (OpError ''mdb_del'' (- 30798)))"
    and "store (snd (snd (Update (txn_del kv_engine 2 (Some [107]) None) opened))) = Map.empty"
    using del by (auto simp: o va p bu)
  ultimately show ?thesis by simp
qed

text \<open>
  Claim C5. A \<open>Close\<close> after a \<open>Close\<close> that returned returns at once and changes nothing.
  The first \<open>Close\<close> of an open \<open>DB\<close> sets the flag, closes the queue, leaves no update
  goroutine and closes the environment. With any number of concurrent callers of \<open>Close\<close>
  and \<open>Update\<close>, in every configuration they can reach the teardown was entered at most
  once (once, as soon as \<open>Close\<close> was called at all), the environment was closed at most
  once, and exactly once when the teardown is through; by then the flag is set, the
  queue closed and drained and the goroutine gone; and a further call of \<open>Close\<close> changes
  nothing but the count of calls.
\<close>

theorem Close_once:
  "(fst (Close s) = Return () \<longrightarrow> Close (snd (Close s)) = (Return (), snd (Close s))) \<and>
   (DB_ok s \<and> closed (fst s) = 0 \<longrightarrow>
      Close s = (Return (),
                 ((fst s)\<lparr>uOps_closed := True, wg := 0, closeOnce := True, closed := 1\<rparr>,
                  call Call_EnvClose (snd s))) \<and>
      (\<forall>evs c. run evs (init_conf s) = Some c \<longrightarrow>
         teardowns c \<le> 1 \<and>
         (0 < close_calls c \<longrightarrow> teardowns c = 1) \<and>
         count_list (trace (cw c)) Call_EnvClose =
           count_list (trace (snd s)) Call_EnvClose + (if teardown c = T_done then 1 else 0) \<and>
         (teardown c = T_done \<longrightarrow>
            closed (cdb c) = 1 \<and> uOps_closed (cdb c) \<and> uOps (cdb c) = [] \<and>
            wg (cdb c) = 0 \<and> worker c = W_done \<and> closeOnce (cdb c)) \<and>
         (teardown c \<noteq> T_idle \<and> \<not> panicked c \<longrightarrow>
            step Ev_Close c = Some (c\<lparr>close_calls := close_calls c + 1\<rparr>))))"
proof -
  have seq: "fst (Close s) = Return () \<longrightarrow> Close (snd (Close s)) = (Return (), snd (Close s))"
    by (auto simp: Close_def worker_run_def Let_def split: if_splits)
  have first: "Close s = (Return (),
                 ((fst s)\<lparr>uOps_closed := True, wg := 0, closeOnce := True, closed := 1\<rparr>,
                  call Call_EnvClose (snd s)))"
    if "DB_ok s" "closed (fst s) = 0"
    using that by (auto simp: Close_def worker_run_def DB_ok_def Let_def split: if_splits)
  have conc: "teardowns c \<le> 1 \<and>
         (0 < close_calls c \<longrightarrow> teardowns c = 1) \<and>
         count_list (trace (cw c)) Call_EnvClose =
           count_list (trace (snd s)) Call_EnvClose + (if teardown c = T_done then 1 else 0) \<and>
         (teardown c = T_done \<longrightarrow>
            closed (cdb c) = 1 \<and> uOps_closed (cdb c) \<and> uOps (cdb c) = [] \<and>
            wg (cdb c) = 0 \<and> worker c = W_done \<and> closeOnce (cdb c)) \<and>
         (teardown c \<noteq> T_idle \<and> \<not> panicked c \<longrightarrow>
            step Ev_Close c = Some (c\<lparr>close_calls := close_calls c + 1\<rparr>))"
    if "DB_ok s" "closed (fst s) = 0" "run evs (init_conf s) = Some c" for evs c
  proof -
    let ?n = "count_list (trace (snd s)) Call_EnvClose"
    have "close_inv ?n c"
      by (rule run_invariant [of "close_inv ?n",
            OF fire_close_inv init_close_inv [OF that(1,2)] that(3)])
    then show ?thesis
      by (simp add: close_inv_def step_def split: if_splits)
  qed
  show ?thesis
    using seq first conc by blast
qed

theorem Close_once_witness:
  "Close (snd (Close opened)) = (Return (), snd (Close opened)) \<and>
   closeOnce (fst (snd (Close opened))) \<and>
   trace (snd (snd (Close opened))) = trace (snd opened) @ [Call_EnvClose] \<and>
   (\<exists>c. run closing_run (init_conf opened) = Some c \<and> close_calls c = 3 \<and>
        teardowns c = 1 \<and>
        count_list (trace (cw c)) Call_EnvClose = 1)"
proof -
  note co = Close_once [of opened]
  from co opened_ok have cl: "Close opened = (Return (),
                 ((fst opened)\<lparr>uOps_closed := True, wg := 0, closeOnce := True, closed := 1\<rparr>,
                  call Call_EnvClose (snd opened)))" by blast
  with co have again: "Close (snd (Close opened)) = (Return (), snd (Close opened))" by simp
  from closing_run_result obtain c where
    r: "run closing_run (init_conf opened) = Some c" and cc: "close_calls c = 3"
    and td: "teardown c = T_done" by blast
  have n0: "count_list (trace (snd opened)) Call_EnvClose = 0"
    by (simp add: opened_eq)
  from co opened_ok r have "teardowns c \<le> 1 \<and> (0 < close_calls c \<longrightarrow> teardowns c = 1) \<and>
      count_list (trace (cw c)) Call_EnvClose =
        count_list (trace (snd opened)) Call_EnvClose + (if teardown c = T_done then 1 else 0)"
    by blast
  with cc td n0 have "teardowns c = 1 \<and> count_list (trace (cw c)) Call_EnvClose = 1" by simp
  with r cc again cl show ?thesis by auto
qed

text \<open>
  Claim C6. When a name occurs twice in \<open>dbNames\<close>, \<open>New\<close> returns no \<open>DB\<close>, the count 0 and
  \<open>ErrDuplicateDbName\<close>, and the world is as it was: no directory was made, no
  environment created or opened, no call left the wrapper.
\<close>

theorem New_duplicate_name:
  "\<not> distinct dbNames \<Longrightarrow> New eng dirPath dbNames w = ((None, 0, Some ErrDuplicateDbName), w)"
  by (simp add: New_def seen_loop_iff)

theorem New_duplicate_name_witness:
  "\<not> distinct [''a'', ''a''] \<and>
   New kv_engine ''dir'' [''a'', ''a''] world0 = ((None, 0, Some ErrDuplicateDbName), world0)"
  using New_duplicate_name [of "[''a'', ''a'']" kv_engine "''dir''" world0] by simp

text \<open>
  Claim C7. When the name is not in the registry or the key is nil or of length zero,
  \<open>Read\<close>, \<open>Write\<close> and \<open>Delete\<close> return the error of the check that failed, and the \<open>DB\<close>
  and the world are as they were: no transaction was started and nothing was queued.
  The error is \<open>ErrEmptyKey\<close> for an empty key under a non-empty name, and
  \<open>ErrDbNameNotFound\<close> otherwise, that is for an unregistered name with a key and for the
  empty name. (Which of the two is returned when both checks would fail is the order of
  claim C10.)
\<close>

theorem invalid_args_rejected:
  assumes "dbs (fst s) dbName = None \<or> key = None \<or> len key = 0"
  shows "Read eng dbName key s =
           (Return (None, Some (if dbName \<noteq> [] \<and> len key = 0 then ErrEmptyKey
                                else ErrDbNameNotFound)), s) \<and>
         Write eng dbName key val s =
           (Return (Some (if dbName \<noteq> [] \<and> len key = 0 then ErrEmptyKey
                          else ErrDbNameNotFound)), s) \<and>
         Delete eng dbName key s =
           (Return (Some (if dbName \<noteq> [] \<and> len key = 0 then ErrEmptyKey
                          else ErrDbNameNotFound)), s)"
  using assms by (auto simp: Read_def Write_def Delete_def validateArgs_def)

theorem invalid_args_rejected_witness:
  "Read kv_engine ''missing-db'' (Some [107]) opened =
     (Return (None, Some ErrDbNameNotFound), opened) \<and>
   Write kv_engine ''a'' (Some []) (Some [118]) opened = (Return (Some ErrEmptyKey), opened) \<and>
   Delete kv_engine ''a'' None opened = (Return (Some ErrEmptyKey), opened)"
  using invalid_args_rejected [of opened "''missing-db''" "Some [107]" kv_engine None]
    invalid_args_rejected [of opened "''a''" "Some []" kv_engine "Some [118]"]
    invalid_args_rejected [of opened "''a''" None kv_engine None]
  by (simp add: opened_eq)

text \<open>
  Claim C8. When directory, environment and reader check succeeded and the create-or-open
  transaction fails for some name, \<open>New\<close> returns no \<open>DB\<close>, the stale-reader count the
  reader check gave, and the error of the first name that failed; its calls end with
  that transaction followed by the close of the environment, after one transaction for
  each name before it.
\<close>

theorem New_create_failure:
  assumes "distinct dbNames"
    and "mkdir_all eng dirPath = None" and "new_env eng = None"
    and "set_max_dbs eng (int (length dbNames)) = None"
    and "set_map_size eng MapSize = None" and "env_open eng dirPath = None"
    and "reader_check eng = (staleReaders, None)"
    and "find (\<lambda>n. snd (create_dbi eng n) \<noteq> None) dbNames = Some name"
  shows "fst (New eng dirPath dbNames w) = (None, staleReaders, snd (create_dbi eng name)) \<and>
         snd (create_dbi eng name) \<noteq> None \<and>
         calls_of_New eng dirPath dbNames w =
           [Call_MkdirAll dirPath 493, Call_NewEnv, Call_SetMaxDBs (int (length dbNames)),
            Call_SetMapSize MapSize, Call_Open dirPath 0 420, Call_ReaderCheck]
           @ map Call_Update_CreateDBI (takeWhile (\<lambda>n. snd (create_dbi eng n) = None) dbNames)
           @ [Call_Update_CreateDBI name, Call_EnvClose]"
proof -
  let ?d = "\<lparr>dbs = Map.empty, uOps = [], uOps_cap = 1000, uOps_closed = False,
             wg = 0, closeOnce = False, closed = 0\<rparr> :: 't DB"
  let ?w6 = "call Call_ReaderCheck (call (Call_Open dirPath 0 420) (call (Call_SetMapSize MapSize)
     (call (Call_SetMaxDBs (int (length dbNames))) (call Call_NewEnv
       (call (Call_MkdirAll dirPath 493) w)))))"
  have err: "snd (create_dbi eng name) \<noteq> None"
    using assms(8) by (auto simp: find_Some_iff)
  have loop: "fst (open_loop eng dbNames ?d ?w6) = snd (create_dbi eng name)"
    "trace (snd (snd (open_loop eng dbNames ?d ?w6))) =
       trace ?w6 @ map Call_Update_CreateDBI (takeWhile (\<lambda>n. snd (create_dbi eng n) = None) dbNames)
         @ [Call_Update_CreateDBI name, Call_EnvClose]"
    using open_loop_fails [OF assms(8), of ?d ?w6] by blast+
  obtain e d' w' where ol: "open_loop eng dbNames ?d ?w6 = (e, d', w')"
    by (cases "open_loop eng dbNames ?d ?w6")
  with loop err have e: "e = snd (create_dbi eng name)" "e \<noteq> None"
    and tr: "trace w' =
       trace ?w6 @ map Call_Update_CreateDBI (takeWhile (\<lambda>n. snd (create_dbi eng n) = None) dbNames)
         @ [Call_Update_CreateDBI name, Call_EnvClose]" by auto
  have New: "New eng dirPath dbNames w = ((None, staleReaders, e), w')"
    using assms(1-7) ol e by (simp add: New_def seen_loop_iff Let_def)
  show ?thesis
    using New e tr by (simp add: calls_of_New_def)
qed

theorem New_create_failure_witness:
  "fst (New kv_engine ''dir'' [''a'', ''c''] world0) =
     (None, 0, Some (OpError ''mdb_dbi_open'' (- 30791))) \<and>
   calls_of_New kv_engine ''dir'' [''a'', ''c''] world0 =
     [Call_MkdirAll ''dir'' 493, Call_NewEnv, Call_SetMaxDBs 2, Call_SetMapSize 10737418240,
      Call_Open ''dir'' 0 420, Call_ReaderCheck, Call_Update_CreateDBI ''a'',
      Call_Update_CreateDBI ''c'', Call_EnvClose]"
  using New_create_failure [of "[''a'', ''c'']" kv_engine "''dir''" 0 "''c''" world0]
  by (simp add: kv_engine_def MapSize_val)

text \<open>
  Claim C9. \<open>MapSize\<close> is 10 * 2^30 = 10737418240. A \<open>DB\<close> that \<open>New\<close> returns has an empty
  queue of capacity 1000. Whenever \<open>New\<close> opens the environment (and it does whenever it
  returns a \<open>DB\<close>), its first five calls are the directory creation, \<open>NewEnv\<close>,
  \<open>SetMaxDBs(len(dbNames))\<close>, \<open>SetMapSize(10737418240)\<close> and then \<open>Open\<close>.
\<close>

theorem New_configuration:
  "MapSize = 10 * 2 ^ 30 \<and> MapSize = 10737418240 \<and>
   (\<forall>db n e w'. New eng dirPath dbNames w = ((Some db, n, e), w') \<longrightarrow>
      uOps_cap db = 1000 \<and> uOps db = [] \<and>
      Call_Open dirPath 0 420 \<in> set (calls_of_New eng dirPath dbNames w)) \<and>
   (\<forall>p a b. Call_Open p a b \<in> set (calls_of_New eng dirPath dbNames w) \<longrightarrow>
      take 5 (calls_of_New eng dirPath dbNames w) =
        [Call_MkdirAll dirPath 493, Call_NewEnv, Call_SetMaxDBs (int (length dbNames)),
         Call_SetMapSize 10737418240, Call_Open dirPath 0 420])"
proof -
  have "MapSize = 10 * 2 ^ 30" by (simp add: MapSize_def)
  moreover have "\<forall>db n e w'. New eng dirPath dbNames w = ((Some db, n, e), w') \<longrightarrow>
      uOps_cap db = 1000 \<and> uOps db = [] \<and>
      Call_Open dirPath 0 420 \<in> set (calls_of_New eng dirPath dbNames w)"
    using New_queue New_success_calls by blast
  moreover have "\<forall>p a b. Call_Open p a b \<in> set (calls_of_New eng dirPath dbNames w) \<longrightarrow>
      take 5 (calls_of_New eng dirPath dbNames w) =
        [Call_MkdirAll dirPath 493, Call_NewEnv, Call_SetMaxDBs (int (length dbNames)),
         Call_SetMapSize 10737418240, Call_Open dirPath 0 420]"
    using New_calls_prefix by blast
  ultimately show ?thesis by (simp add: MapSize_val)
qed

theorem New_configuration_witness:
  "uOps_cap (fst opened) = 1000 \<and> uOps (fst opened) = [] \<and>
   take 5 (calls_of_New kv_engine ''dir'' [''a'', ''b''] world0) =
     [Call_MkdirAll ''dir'' 493, Call_NewEnv, Call_SetMaxDBs 2,
      Call_SetMapSize 10737418240, Call_Open ''dir'' 0 420]"
  using New_configuration [of kv_engine "''dir''" "[''a'', ''b'']" world0] New_opened
  by auto

text \<open>
  Claim C10. \<open>Read\<close>, \<open>Write\<close> and \<open>Delete\<close> check in this order: the empty name gives
  \<open>ErrDbNameNotFound\<close> whatever the key; a non-empty name with a nil or empty key gives
  \<open>ErrEmptyKey\<close> whether or not the name is registered, the key being looked at before
  the registry. Nothing else happens in either case. \<open>parseArgs\<close> of \<^verbatim>\<open>wrap/wrap.go\<close>
  answers as \<open>validateArgs\<close> does.
\<close>

theorem validation_order:
  "Read eng [] key s = (Return (None, Some ErrDbNameNotFound), s) \<and>
   Write eng [] key val s = (Return (Some ErrDbNameNotFound), s) \<and>
   Delete eng [] key s = (Return (Some ErrDbNameNotFound), s) \<and>
   (dbName \<noteq> [] \<and> (key = None \<or> len key = 0) \<longrightarrow>
      Read eng dbName key s = (Return (None, Some ErrEmptyKey), s) \<and>
      Write eng dbName key val s = (Return (Some ErrEmptyKey), s) \<and>
      Delete eng dbName key s = (Return (Some ErrEmptyKey), s)) \<and>
   parseArgs (fst s) dbName key = validateArgs (fst s) dbName key \<and>
   validateArgs (fst s) [] key = (0, Some ErrDbNameNotFound) \<and>
   (dbName \<noteq> [] \<and> (key = None \<or> len key = 0) \<longrightarrow>
      validateArgs (fst s) dbName key = (0, Some ErrEmptyKey))"
  by (simp add: Read_def Write_def Delete_def validateArgs_def parseArgs_def)

theorem validation_order_witness:
  "dbs (fst opened) ''missing-db'' = None \<and>
   Read kv_engine ''missing-db'' None opened = (Return (None, Some ErrEmptyKey), opened) \<and>
   Write kv_engine ''missing-db'' (Some []) (Some [118]) opened =
     (Return (Some ErrEmptyKey), opened) \<and>
   Delete kv_engine ''missing-db'' (Some []) opened = (Return (Some ErrEmptyKey), opened) \<and>
   validateArgs (fst opened) ''missing-db'' (Some []) = (0, Some ErrEmptyKey)"
  using validation_order [of kv_engine None opened None "''missing-db''"]
    validation_order [of kv_engine "Some []" opened "Some [118]" "''missing-db''"]
  by (simp add: opened_eq)

end
